theory Spec2Isabelle
  imports Main
begin

section \<open>LDAPAuthenticator: data model\<close>

text \<open>
  A shallow embedding of \<^verbatim>\<open>ldapauthenticator/ldapauthenticator.py\<close>.
  Every method of \<^verbatim>\<open>LDAPAuthenticator\<close> becomes a function of the configuration
  (the traits of \<^verbatim>\<open>self\<close>), of the world it talks to (the directory server and the
  library functions it calls), and of the list of directory operations performed so far,
  which it returns extended by the operations it performs itself.  An exception leaving
  a method is the value \<open>Inl\<close> of a sum.

  Strings are \<^typ>\<open>string\<close>; a character stands for a code point below 256.
\<close>

subsection \<open>Exceptions\<close>

text \<open>
  The code distinguishes one exception class, \<^verbatim>\<open>ldap3.core.exceptions.LDAPBindError\<close>
  (caught in the bind loop of \<^verbatim>\<open>authenticate\<close>); every other exception propagates
  to the caller unchanged.
\<close>

datatype exn = LDAPBindError | OtherException

subsection \<open>Configuration\<close>

datatype TlsStrategy = before_bind | on_connect | insecure

text \<open>
  The traits of the class.  A trait declared with \<^verbatim>\<open>allow_none=True\<close> is an option.
  \<open>server_port\<close> is \<open>None\<close> while the port has not been configured, in which case
  the dynamic default applies.  \<open>bind_dn_template\<close> holds the value stored after
  validation.  \<open>allowed_users\<close> is the trait inherited from the host's
  \<^verbatim>\<open>Authenticator\<close>.
\<close>

record config =
  server_address :: string
  server_port :: "int option"
  tls_strategy :: TlsStrategy
  bind_dn_template :: "string list"
  allowed_groups :: "string list option"
  group_search_filter :: string
  group_attributes :: "string list"
  valid_username_regex :: string
  lookup_dn :: bool
  user_search_base :: "string option"
  user_attribute :: "string option"
  lookup_dn_search_filter :: "string option"
  lookup_dn_search_user :: "string option"
  lookup_dn_search_password :: "string option"
  lookup_dn_user_dn_attribute :: "string option"
  search_filter :: string
  attributes :: "string list"
  auth_state_attributes :: "string list"
  use_lookup_dn_username :: bool
  allowed_users :: "string list"

text \<open>\<^verbatim>\<open>_server_port_default\<close>: 636 for \<open>on_connect\<close>, 389 otherwise.\<close>

definition server_port_default :: "config \<Rightarrow> int" where
  "server_port_default cfg = (if tls_strategy cfg = on_connect then 636 else 389)"

definition server_port_value :: "config \<Rightarrow> int" where
  "server_port_value cfg =
     (case server_port cfg of Some p \<Rightarrow> p | None \<Rightarrow> server_port_default cfg)"

subsection \<open>Validation of \<open>bind_dn_template\<close>\<close>

text \<open>
  The trait is \<^verbatim>\<open>Union([List(), Unicode()])\<close>: the proposed value is a string or a list.
\<close>

datatype proposal_value = PStr string | PList "string list"

text \<open>
  \<^verbatim>\<open>_validate_bind_dn_template\<close> (lines 120-131), statement by statement:
  \<open>rv = []\<close>; if the value is a string, \<open>rv = [value]\<close>; if \<open>""\<close> is in \<open>rv\<close>,
  keep the entries of \<open>rv\<close> that are not empty; return \<open>rv\<close>.  There is no branch
  for a value that is a list.
\<close>

definition validate_bind_dn_template :: "proposal_value \<Rightarrow> string list" where
  "validate_bind_dn_template v =
     (let rv0 = [];
          rv1 = (case v of PStr s \<Rightarrow> [s] | PList _ \<Rightarrow> rv0);
          rv2 = (if [] \<in> set rv1 then filter (\<lambda>e. e \<noteq> []) rv1 else rv1)
      in rv2)"

text \<open>
  Assigning the trait stores what the validator returns (traitlets' \<^verbatim>\<open>@validate\<close>).
\<close>

definition set_bind_dn_template :: "proposal_value \<Rightarrow> config \<Rightarrow> config" where
  "set_bind_dn_template v cfg = cfg\<lparr>bind_dn_template := validate_bind_dn_template v\<rparr>"

subsection \<open>The directory and the libraries\<close>

datatype auto_bind = AUTO_BIND_NO_TLS | AUTO_BIND_TLS_BEFORE_BIND

datatype search_scope = BASE | SUBTREE

text \<open>\<^verbatim>\<open>ldap3.Server(address, port=..., use_ssl=...)\<close>.\<close>

record server =
  host :: string
  port :: int
  use_ssl :: bool

text \<open>
  \<^verbatim>\<open>ldap3.Connection(server, user=..., password=..., auto_bind=...)\<close>, with its
  \<^verbatim>\<open>bound\<close> flag as it is once the constructor has returned.
\<close>

record connection =
  conn_server :: server
  conn_user :: "string option"
  conn_password :: "string option"
  conn_auto_bind :: auto_bind
  conn_bound :: bool

text \<open>The keyword arguments of \<^verbatim>\<open>conn.search\<close>.\<close>

record search_request =
  req_base :: "string option"
  req_scope :: search_scope
  req_filter :: string
  req_attributes :: "string option list"

text \<open>
  The value of an attribute in a response item: a string, or a list of strings.
\<close>

datatype attr_value = AStr string | AList "string list"

text \<open>
  An item of \<^verbatim>\<open>conn.response\<close>: an entry, a dictionary with the keys \<^verbatim>\<open>"dn"\<close> and
  \<^verbatim>\<open>"attributes"\<close> (the latter a dictionary itself, here its lookup function), or
  an item without the key \<^verbatim>\<open>"attributes"\<close> (a search reference).
\<close>

datatype response_item =
    SearchResEntry string "string option \<Rightarrow> attr_value option"
  | SearchResRef

type_synonym attr_dict = "(string \<times> string list) list"

text \<open>
  What the code reads after \<^verbatim>\<open>conn.search\<close>: the value the call returned
  (\<open>found\<close>), \<^verbatim>\<open>conn.response\<close>, and \<^verbatim>\<open>entry_attributes_as_dict\<close> of each
  element of \<^verbatim>\<open>conn.entries\<close>.
\<close>

record search_result =
  found :: bool
  response :: "response_item list"
  entries :: "attr_dict list"

text \<open>
  The identity \<^verbatim>\<open>authenticate\<close> returns, which is also the \<^verbatim>\<open>auth_model\<close>
  handed to \<^verbatim>\<open>check_allowed\<close>; there \<^verbatim>\<open>auth_state\<close> may be \<^verbatim>\<open>None\<close>.
\<close>

record auth_state =
  ldap_groups :: "string list"
  user_attributes :: attr_dict

record auth_model =
  name :: string
  auth_state :: "auth_state option"

text \<open>
  Everything the class calls that is not part of the repository: \<^verbatim>\<open>re.match\<close>
  (whether there is a match), ldap3's \<^verbatim>\<open>escape_filter_chars\<close> and \<^verbatim>\<open>escape_rdn\<close>,
  \<^verbatim>\<open>str.format\<close> with keyword arguments (an argument is a string or \<^verbatim>\<open>None\<close>), the
  directory server behind \<^verbatim>\<open>ldap3.Connection\<close>, \<^verbatim>\<open>conn.bind\<close> and
  \<^verbatim>\<open>conn.search\<close>, and the host's \<^verbatim>\<open>Authenticator.check_allowed\<close>
  (\<open>None\<close> when the host class has no attribute \<^verbatim>\<open>allow_all\<close>).
\<close>

record world =
  re_match :: "string \<Rightarrow> string \<Rightarrow> bool"
  escape_filter_chars :: "string \<Rightarrow> string"
  escape_rdn :: "string \<Rightarrow> exn + string"
  str_format :: "string \<Rightarrow> (string \<times> string option) list \<Rightarrow> exn + string"
  ldap_connect :: "server \<Rightarrow> string option \<Rightarrow> string option \<Rightarrow> auto_bind \<Rightarrow> exn + bool"
  ldap_bind :: "connection \<Rightarrow> exn + bool"
  ldap_search :: "connection \<Rightarrow> search_request \<Rightarrow> exn + search_result"
  super_check_allowed :: "(string \<Rightarrow> auth_model \<Rightarrow> bool) option"

text \<open>The directory operations, in the order they are performed.\<close>

datatype event =
    Connect server "string option" "string option" auto_bind
  | Bind connection
  | Search connection search_request

subsection \<open>Python's \<open>str.strip\<close>\<close>

text \<open>The characters below 256 for which \<^verbatim>\<open>str.isspace\<close> holds.\<close>

definition isspace :: "char \<Rightarrow> bool" where
  "isspace c = (of_char c \<in> {9, 10, 11, 12, 13, 28, 29, 30, 31, 32, 133, 160 :: nat})"

definition strip :: "string \<Rightarrow> string" where
  "strip s = rev (dropWhile isspace (rev (dropWhile isspace s)))"

section \<open>LDAPAuthenticator: operations\<close>

subsection \<open>Connections\<close>

text \<open>\<^verbatim>\<open>get_connection\<close> (lines 385-412).\<close>

definition get_connection ::
  "world \<Rightarrow> config \<Rightarrow> string option \<Rightarrow> string option \<Rightarrow> event list
     \<Rightarrow> (exn + connection) \<times> event list" where
  "get_connection w cfg userdn password log =
     (let (ssl, ab) =
            (if tls_strategy cfg = on_connect then (True, AUTO_BIND_NO_TLS)
             else if tls_strategy cfg = before_bind then (False, AUTO_BIND_TLS_BEFORE_BIND)
             else (False, AUTO_BIND_NO_TLS));
          srv = \<lparr>host = server_address cfg, port = server_port_value cfg, use_ssl = ssl\<rparr>;
          log1 = log @ [Connect srv userdn password ab]
      in case ldap_connect w srv userdn password ab of
           Inl e \<Rightarrow> (Inl e, log1)
         | Inr b \<Rightarrow>
             (Inr \<lparr>conn_server = srv, conn_user = userdn, conn_password = password,
                   conn_auto_bind = ab, conn_bound = b\<rparr>, log1))"

text \<open>\<^verbatim>\<open>conn.bind()\<close> and \<^verbatim>\<open>conn.search(...)\<close>.\<close>

definition conn_bind ::
  "world \<Rightarrow> connection \<Rightarrow> event list \<Rightarrow> (exn + bool) \<times> event list" where
  "conn_bind w conn log = (ldap_bind w conn, log @ [Bind conn])"

definition conn_search ::
  "world \<Rightarrow> connection \<Rightarrow> search_request \<Rightarrow> event list
     \<Rightarrow> (exn + search_result) \<times> event list" where
  "conn_search w conn req log = (ldap_search w conn req, log @ [Search conn req])"

subsection \<open>Looking the user up\<close>

text \<open>
  The request of the lookup search (lines 354-359).
\<close>

definition lookup_request :: "config \<Rightarrow> string \<Rightarrow> search_request" where
  "lookup_request cfg flt =
     \<lparr>req_base = user_search_base cfg, req_scope = SUBTREE, req_filter = flt,
      req_attributes = [lookup_dn_user_dn_attribute cfg]\<rparr>"

text \<open>
  \<^verbatim>\<open>resolve_username\<close> (lines 329-383).  The result \<^verbatim>\<open>(None, None)\<close> is \<open>None\<close>,
  the result \<^verbatim>\<open>(user_dn, response[0]["dn"])\<close> is \<open>Some (user_dn, dn)\<close>.  Calling
  \<^verbatim>\<open>format\<close> on a filter that is \<^verbatim>\<open>None\<close> and reading an attribute the entry does
  not have raise.
\<close>

definition resolve_username ::
  "world \<Rightarrow> config \<Rightarrow> string \<Rightarrow> event list
     \<Rightarrow> (exn + (string \<times> string) option) \<times> event list" where
  "resolve_username w cfg username_supplied_by_user log =
     (case get_connection w cfg (lookup_dn_search_user cfg) (lookup_dn_search_password cfg) log of
        (Inl e, log1) \<Rightarrow> (Inl e, log1)
      | (Inr conn, log1) \<Rightarrow>
     (case conn_bind w conn log1 of
        (Inl e, log2) \<Rightarrow> (Inl e, log2)
      | (Inr b, log2) \<Rightarrow>
     if \<not> b then (Inr None, log2) else
     (case lookup_dn_search_filter cfg of
        None \<Rightarrow> (Inl OtherException, log2)
      | Some template \<Rightarrow>
     (case str_format w template
             [(''login_attr'', user_attribute cfg),
              (''login'', Some (escape_filter_chars w username_supplied_by_user))] of
        Inl e \<Rightarrow> (Inl e, log2)
      | Inr flt \<Rightarrow>
     (case conn_search w conn (lookup_request cfg flt) log2 of
        (Inl e, log3) \<Rightarrow> (Inl e, log3)
      | (Inr res, log3) \<Rightarrow>
     (case response res of
        [] \<Rightarrow> (Inr None, log3)
      | SearchResRef # _ \<Rightarrow> (Inr None, log3)
      | SearchResEntry dn attrs # _ \<Rightarrow>
     (case attrs (lookup_dn_user_dn_attribute cfg) of
        None \<Rightarrow> (Inl OtherException, log3)
      | Some (AStr user_dn) \<Rightarrow> (Inr (Some (user_dn, dn)), log3)
      | Some (AList []) \<Rightarrow> (Inr None, log3)
      | Some (AList [user_dn]) \<Rightarrow> (Inr (Some (user_dn, dn)), log3)
      | Some (AList (user_dn # _ # _)) \<Rightarrow> (Inr (Some (user_dn, dn)), log3))))))))"

subsection \<open>Binding\<close>

text \<open>
  The loop of \<^verbatim>\<open>authenticate\<close> over the templates (lines 468-486), with the supplied
  password.  The result is the DN and the connection of the iteration that left the loop
  with \<^verbatim>\<open>is_bound\<close> true, or \<open>None\<close> when the loop ended with \<^verbatim>\<open>is_bound\<close>
  false.  Only \<^verbatim>\<open>LDAPBindError\<close> is caught.
\<close>

fun bind_loop ::
  "world \<Rightarrow> config \<Rightarrow> string \<Rightarrow> string \<Rightarrow> string list \<Rightarrow> event list
     \<Rightarrow> (exn + (string \<times> connection) option) \<times> event list" where
  "bind_loop w cfg username password [] log = (Inr None, log)"
| "bind_loop w cfg username password (dn # dns) log =
     (case escape_rdn w username of
        Inl e \<Rightarrow> (Inl e, log)
      | Inr escaped \<Rightarrow>
     (case str_format w dn [(''username'', Some escaped)] of
        Inl e \<Rightarrow> (Inl e, log)
      | Inr userdn \<Rightarrow>
     (case get_connection w cfg (Some userdn) (Some password) log of
        (Inl LDAPBindError, log1) \<Rightarrow> bind_loop w cfg username password dns log1
      | (Inl OtherException, log1) \<Rightarrow> (Inl OtherException, log1)
      | (Inr conn, log1) \<Rightarrow>
          if conn_bound conn then (Inr (Some (userdn, conn)), log1)
          else
            (case conn_bind w conn log1 of
               (Inl e, log2) \<Rightarrow> (Inl e, log2)
             | (Inr is_bound, log2) \<Rightarrow>
                 if is_bound then (Inr (Some (userdn, conn)), log2)
                 else bind_loop w cfg username password dns log2))))"

text \<open>
  The choice of the username and of the templates (lines 460-466): without
  \<^verbatim>\<open>lookup_dn\<close> the supplied username and the configured templates; with it, the
  looked-up name, and the configured templates or, when there is none, the DN of the
  looked-up entry.  \<open>None\<close> where the code returns \<^verbatim>\<open>None\<close>.
\<close>

definition choose_templates ::
  "world \<Rightarrow> config \<Rightarrow> string \<Rightarrow> event list
     \<Rightarrow> (exn + (string \<times> string list) option) \<times> event list" where
  "choose_templates w cfg username log =
     (if lookup_dn cfg
      then (case resolve_username w cfg username log of
              (Inl e, log1) \<Rightarrow> (Inl e, log1)
            | (Inr None, log1) \<Rightarrow> (Inr None, log1)
            | (Inr (Some (user_dn, resolved_dn)), log1) \<Rightarrow>
                if user_dn = [] then (Inr None, log1)
                else (Inr (Some (user_dn,
                        if bind_dn_template cfg = [] then [resolved_dn]
                        else bind_dn_template cfg)), log1))
      else (Inr (Some (username, bind_dn_template cfg)), log))"

text \<open>
  \<^verbatim>\<open>authenticate\<close> up to the end of the loop (lines 436-490): the checks of the
  username and of the password, the sanity check, the choice of the templates, the loop.
  The result is \<open>None\<close> where the code returns \<^verbatim>\<open>None\<close>, and otherwise the values
  of \<^verbatim>\<open>username\<close>, \<^verbatim>\<open>userdn\<close> and \<^verbatim>\<open>conn\<close> after the loop.
\<close>

definition bind_phase ::
  "world \<Rightarrow> config \<Rightarrow> string \<Rightarrow> string option \<Rightarrow> event list
     \<Rightarrow> (exn + (string \<times> string \<times> connection) option) \<times> event list" where
  "bind_phase w cfg username password log =
     (if \<not> re_match w (valid_username_regex cfg) username then (Inr None, log)
      else
     (case password of
        None \<Rightarrow> (Inr None, log)
      | Some pw \<Rightarrow>
     if strip pw = [] then (Inr None, log)
     else if \<not> lookup_dn cfg \<and> bind_dn_template cfg = [] then (Inr None, log)
     else
     (case choose_templates w cfg username log of
        (Inl e, log1) \<Rightarrow> (Inl e, log1)
      | (Inr None, log1) \<Rightarrow> (Inr None, log1)
      | (Inr (Some (username1, templates)), log1) \<Rightarrow>
     (case bind_loop w cfg username1 pw templates log1 of
        (Inl e, log2) \<Rightarrow> (Inl e, log2)
      | (Inr None, log2) \<Rightarrow> (Inr None, log2)
      | (Inr (Some (userdn, conn)), log2) \<Rightarrow> (Inr (Some (username1, userdn, conn)), log2)))))"

subsection \<open>After the bind\<close>

text \<open>The request of the search for \<^verbatim>\<open>search_filter\<close> (lines 493-501).\<close>

definition filter_request :: "config \<Rightarrow> string \<Rightarrow> search_request" where
  "filter_request cfg flt =
     \<lparr>req_base = user_search_base cfg, req_scope = SUBTREE, req_filter = flt,
      req_attributes = map Some (attributes cfg)\<rparr>"

text \<open>
  The check of \<^verbatim>\<open>search_filter\<close> (lines 492-513): \<open>False\<close> where the code returns
  \<^verbatim>\<open>None\<close>, \<open>True\<close> where it goes on.
\<close>

definition search_filter_check ::
  "world \<Rightarrow> config \<Rightarrow> string \<Rightarrow> connection \<Rightarrow> event list \<Rightarrow> (exn + bool) \<times> event list" where
  "search_filter_check w cfg username conn log =
     (if search_filter cfg \<noteq> [] then
        (case str_format w (search_filter cfg)
                [(''userattr'', user_attribute cfg),
                 (''username'', Some (escape_filter_chars w username))] of
           Inl e \<Rightarrow> (Inl e, log)
         | Inr flt \<Rightarrow>
        (case conn_search w conn (filter_request cfg flt) log of
           (Inl e, log1) \<Rightarrow> (Inl e, log1)
         | (Inr res, log1) \<Rightarrow>
             (let n_users = length (response res)
              in if n_users = 0 then (Inr False, log1)
                 else if n_users > 1 then (Inr False, log1)
                 else (Inr True, log1))))
      else (Inr True, log))"

text \<open>The request of the probe of one group (lines 524-532).\<close>

definition group_request :: "config \<Rightarrow> string \<Rightarrow> string \<Rightarrow> search_request" where
  "group_request cfg grp flt =
     \<lparr>req_base = Some grp, req_scope = BASE, req_filter = flt,
      req_attributes = map Some (group_attributes cfg)\<rparr>"

text \<open>
  The loop over \<^verbatim>\<open>allowed_groups\<close> (lines 523-539); the result is \<^verbatim>\<open>ldap_groups\<close>
  after the loop.
\<close>

fun probe_groups ::
  "world \<Rightarrow> config \<Rightarrow> string \<Rightarrow> string \<Rightarrow> connection \<Rightarrow> string list \<Rightarrow> event list
     \<Rightarrow> (exn + string list) \<times> event list" where
  "probe_groups w cfg username userdn conn [] log = (Inr [], log)"
| "probe_groups w cfg username userdn conn (grp # groups) log =
     (case str_format w (group_search_filter cfg)
             [(''userdn'', Some (escape_filter_chars w userdn)),
              (''uid'', Some (escape_filter_chars w username))] of
        Inl e \<Rightarrow> (Inl e, log)
      | Inr flt \<Rightarrow>
     (case conn_search w conn (group_request cfg grp flt) log of
        (Inl e, log1) \<Rightarrow> (Inl e, log1)
      | (Inr res, log1) \<Rightarrow>
          if found res then (Inr [grp], log1)
          else probe_groups w cfg username userdn conn groups log1))"

text \<open>
  The group check (lines 515-539): \<open>None\<close> where the code returns \<^verbatim>\<open>None\<close>,
  otherwise \<^verbatim>\<open>ldap_groups\<close>.  \<^verbatim>\<open>allowed_groups\<close> is false when it is \<^verbatim>\<open>None\<close> or
  empty.
\<close>

definition group_check ::
  "world \<Rightarrow> config \<Rightarrow> string \<Rightarrow> string \<Rightarrow> connection \<Rightarrow> event list
     \<Rightarrow> (exn + string list option) \<times> event list" where
  "group_check w cfg username userdn conn log =
     (case allowed_groups cfg of
        None \<Rightarrow> (Inr (Some []), log)
      | Some groups \<Rightarrow>
          if groups = [] then (Inr (Some []), log)
          else if group_search_filter cfg = [] \<or> group_attributes cfg = [] then (Inr None, log)
          else
            (case probe_groups w cfg username userdn conn groups log of
               (Inl e, log1) \<Rightarrow> (Inl e, log1)
             | (Inr matched, log1) \<Rightarrow> (Inr (Some matched), log1)))"

text \<open>
  \<^verbatim>\<open>get_user_attributes\<close> (lines 414-425); \<^verbatim>\<open>conn.entries[0]\<close> raises when there is
  no entry.
\<close>

definition get_user_attributes ::
  "world \<Rightarrow> config \<Rightarrow> connection \<Rightarrow> string \<Rightarrow> event list \<Rightarrow> (exn + attr_dict) \<times> event list" where
  "get_user_attributes w cfg conn userdn log =
     (if auth_state_attributes cfg \<noteq> [] then
        (case conn_search w conn
                \<lparr>req_base = Some userdn, req_scope = SUBTREE, req_filter = ''(objectClass=*)'',
                 req_attributes = map Some (auth_state_attributes cfg)\<rparr> log of
           (Inl e, log1) \<Rightarrow> (Inl e, log1)
         | (Inr res, log1) \<Rightarrow>
             if found res then
               (case entries res of
                  [] \<Rightarrow> (Inl OtherException, log1)
                | attrs # _ \<Rightarrow> (Inr attrs, log1))
             else (Inr [], log1))
      else (Inr [], log))"

subsection \<open>\<open>authenticate\<close> and \<open>check_allowed\<close>\<close>

text \<open>
  \<^verbatim>\<open>authenticate\<close> (lines 427-550), with \<^verbatim>\<open>data["username"]\<close> and
  \<^verbatim>\<open>data["password"]\<close> as arguments.  \<open>Inr None\<close> is the result \<^verbatim>\<open>None\<close>.
\<close>

definition authenticate ::
  "world \<Rightarrow> config \<Rightarrow> string \<Rightarrow> string option \<Rightarrow> event list
     \<Rightarrow> (exn + auth_model option) \<times> event list" where
  "authenticate w cfg data_username data_password log =
     (case bind_phase w cfg data_username data_password log of
        (Inl e, log1) \<Rightarrow> (Inl e, log1)
      | (Inr None, log1) \<Rightarrow> (Inr None, log1)
      | (Inr (Some (username, userdn, conn)), log1) \<Rightarrow>
     (case search_filter_check w cfg username conn log1 of
        (Inl e, log2) \<Rightarrow> (Inl e, log2)
      | (Inr ok, log2) \<Rightarrow>
     if \<not> ok then (Inr None, log2) else
     (case group_check w cfg username userdn conn log2 of
        (Inl e, log3) \<Rightarrow> (Inl e, log3)
      | (Inr None, log3) \<Rightarrow> (Inr None, log3)
      | (Inr (Some groups), log3) \<Rightarrow>
     (case get_user_attributes w cfg conn userdn log3 of
        (Inl e, log4) \<Rightarrow> (Inl e, log4)
      | (Inr attrs, log4) \<Rightarrow>
          (Inr (Some \<lparr>name = (if \<not> use_lookup_dn_username cfg then data_username else username),
                      auth_state = Some \<lparr>ldap_groups = groups, user_attributes = attrs\<rparr>\<rparr>),
           log4)))))"

text \<open>
  \<^verbatim>\<open>check_allowed\<close> (lines 552-579).  The set \<^verbatim>\<open>in_groups\<close> is the set of the
  \<^verbatim>\<open>ldap_groups\<close> of the \<^verbatim>\<open>auth_state\<close>, empty when the \<^verbatim>\<open>auth_state\<close> is
  \<^verbatim>\<open>None\<close>.
\<close>

definition in_groups :: "auth_model \<Rightarrow> string set" where
  "in_groups am = (case auth_state am of None \<Rightarrow> {} | Some st \<Rightarrow> set (ldap_groups st))"

definition check_allowed ::
  "world \<Rightarrow> config \<Rightarrow> string \<Rightarrow> auth_model \<Rightarrow> event list \<Rightarrow> bool \<times> event list" where
  "check_allowed w cfg username am log =
     (let groups = (case allowed_groups cfg of None \<Rightarrow> [] | Some gs \<Rightarrow> gs);
          allowed =
            (case super_check_allowed w of
               None \<Rightarrow>
                 (allowed_users cfg = [] \<and> groups = [])
                 \<or> (allowed_users cfg \<noteq> [] \<and> username \<in> set (allowed_users cfg))
             | Some super \<Rightarrow> super username am)
      in if allowed then (True, log)
         else if groups \<noteq> [] \<and> list_ex (\<lambda>grp. grp \<in> in_groups am) groups then (True, log)
         else (False, log))"

subsection \<open>Reading the trace\<close>

definition is_connect :: "event \<Rightarrow> bool" where
  "is_connect ev = (case ev of Connect _ _ _ _ \<Rightarrow> True | _ \<Rightarrow> False)"

text \<open>
  Whether the probe of a group with the filter \<open>flt\<close> on the connection \<open>conn\<close>
  finds the group, and the groups the loop over \<^verbatim>\<open>allowed_groups\<close> gets to probe:
  those before the first one found, and that one.
\<close>

definition group_matches :: "world \<Rightarrow> config \<Rightarrow> connection \<Rightarrow> string \<Rightarrow> string \<Rightarrow> bool" where
  "group_matches w cfg conn flt grp =
     (case ldap_search w conn (group_request cfg grp flt) of
        Inl _ \<Rightarrow> False
      | Inr res \<Rightarrow> found res)"

definition probed :: "(string \<Rightarrow> bool) \<Rightarrow> string list \<Rightarrow> string list" where
  "probed m groups = takeWhile (\<lambda>g. \<not> m g) groups @ take 1 (dropWhile (\<lambda>g. \<not> m g) groups)"


definition user_connect :: "config \<Rightarrow> string \<Rightarrow> string \<Rightarrow> event" where
  "user_connect cfg userdn password =
     Connect \<lparr>host = server_address cfg, port = server_port_value cfg,
              use_ssl = (tls_strategy cfg = on_connect)\<rparr>
       (Some userdn) (Some password)
       (if tls_strategy cfg = before_bind then AUTO_BIND_TLS_BEFORE_BIND else AUTO_BIND_NO_TLS)"

section \<open>A small directory\<close>

text \<open>
  A concrete world, on which the operations can be run.  Its \<open>demo_format\<close> substitutes
  the fields \<^verbatim>\<open>{name}\<close> of a template and raises for a name it is not given and for an
  unmatched brace, as \<^verbatim>\<open>str.format\<close> does on templates without doubled braces,
  conversions and format specifications; \<^verbatim>\<open>None\<close> is substituted as \<^verbatim>\<open>None\<close>.
\<close>

fun demo_format_go ::
  "string option \<Rightarrow> string \<Rightarrow> (string \<times> string option) list \<Rightarrow> exn + string" where
  "demo_format_go None [] args = Inr []"
| "demo_format_go (Some field) [] args = Inl OtherException"
| "demo_format_go None (c # cs) args =
     (if c = CHR ''{'' then demo_format_go (Some []) cs args
      else if c = CHR ''}'' then Inl OtherException
      else (case demo_format_go None cs args of Inl e \<Rightarrow> Inl e | Inr r \<Rightarrow> Inr (c # r)))"
| "demo_format_go (Some field) (c # cs) args =
     (if c = CHR ''}'' then
        (case map_of args (rev field) of
           None \<Rightarrow> Inl OtherException
         | Some v \<Rightarrow>
             (case demo_format_go None cs args of
                Inl e \<Rightarrow> Inl e
              | Inr r \<Rightarrow> Inr ((case v of None \<Rightarrow> ''None'' | Some s \<Rightarrow> s) @ r)))
      else demo_format_go (Some (c # field)) cs args)"

definition demo_format :: "string \<Rightarrow> (string \<times> string option) list \<Rightarrow> exn + string" where
  "demo_format template args = demo_format_go None template args"

text \<open>ldap3's \<^verbatim>\<open>escape_filter_chars\<close> on a string.\<close>

definition demo_escape_filter_chars :: "string \<Rightarrow> string" where
  "demo_escape_filter_chars text =
     concat (map (\<lambda>c. if c = CHR 0x5C then CHR 0x5C # ''5c''
                       else if c = CHR ''*'' then CHR 0x5C # ''2a''
                       else if c = CHR ''('' then CHR 0x5C # ''28''
                       else if c = CHR '')'' then CHR 0x5C # ''29''
                       else if c = CHR 0x00 then CHR 0x5C # ''00''
                       else [c]) text)"

text \<open>
  ldap3's \<^verbatim>\<open>escape_rdn\<close>: a backslash before each special character, before a leading
  \<^verbatim>\<open>#\<close> or space and before a trailing space; it raises on the empty string.
\<close>

definition demo_escape_rdn :: "string \<Rightarrow> exn + string" where
  "demo_escape_rdn rdn =
     (let r1 = concat (map (\<lambda>c. if c \<in> set (CHR 0x5C # CHR 0x22 # '',+<>;='') \<or> c = CHR 0x00
                                 then [CHR 0x5C, c] else [c]) rdn)
      in case r1 of
           [] \<Rightarrow> Inl OtherException
         | c # _ \<Rightarrow>
             (let r2 = (if c = CHR ''#'' \<or> c = CHR '' '' then CHR 0x5C # r1 else r1);
                  r3 = (if last r2 = CHR '' '' then butlast r2 @ [CHR 0x5C, CHR '' ''] else r2)
              in Inr r3))"

text \<open>
  \<^verbatim>\<open>re.match\<close> for two patterns: the default of \<^verbatim>\<open>valid_username_regex\<close>,
  \<^verbatim>\<open>^[a-z][.a-z0-9_-]*$\<close> (the \<^verbatim>\<open>$\<close> also matches before a final newline), and
  \<^verbatim>\<open>.+\<close>, which accepts every string that does not start with a newline.
\<close>

definition lower :: "char \<Rightarrow> bool" where
  "lower c = (97 \<le> (of_char c :: nat) \<and> (of_char c :: nat) \<le> 122)"

definition digit :: "char \<Rightarrow> bool" where
  "digit c = (48 \<le> (of_char c :: nat) \<and> (of_char c :: nat) \<le> 57)"

definition demo_re_match :: "string \<Rightarrow> string \<Rightarrow> bool" where
  "demo_re_match pattern s =
     (if pattern = ''^[a-z][.a-z0-9_-]*$'' then
        (case s of
           [] \<Rightarrow> False
         | c # cs \<Rightarrow>
             lower c \<and>
             list_all (\<lambda>d. lower d \<or> digit d \<or> d \<in> set ''._-'')
               (if cs \<noteq> [] \<and> last cs = CHR 0x0A then butlast cs else cs))
      else pattern = ''.+'' \<and> (case s of [] \<Rightarrow> False | c # _ \<Rightarrow> c \<noteq> CHR 0x0A))"

text \<open>
  The directory: four accounts that can bind (the last for the username
  \<^verbatim>\<open>j*doe,jr\<close>), a user base with the entries of
  \<open>bob\<close> (whose \<open>cn\<close> is \<open>Bob Smith\<close>), \<open>carol\<close> (whose \<open>cn\<close> has no value),
  \<open>alice\<close> and \<^verbatim>\<open>j*doe,jr\<close>,
  and two groups of which only \<open>cn=users,dc=org\<close> has the user as a member.
\<close>

definition demo_connect ::
  "server \<Rightarrow> string option \<Rightarrow> string option \<Rightarrow> auto_bind \<Rightarrow> exn + bool" where
  "demo_connect srv user password ab =
     (if (user, password) \<in> set
           [(Some ''uid=alice,ou=b'', Some ''secret''),
            (Some ''cn=search,dc=org'', Some ''tech''),
            (Some ''cn=Bob Smith,ou=people,dc=org'', Some ''bobpw''),
            (Some (''uid=j*doe'' @ CHR 0x5C # '',jr,ou=b''), Some ''pw'')]
      then Inr True else Inl LDAPBindError)"

definition demo_server :: server where
  "demo_server = \<lparr>host = ''ldap.example.org'', port = 389, use_ssl = False\<rparr>"

definition demo_conn :: "string \<Rightarrow> string \<Rightarrow> connection" where
  "demo_conn user password =
     \<lparr>conn_server = demo_server, conn_user = Some user, conn_password = Some password,
      conn_auto_bind = AUTO_BIND_TLS_BEFORE_BIND, conn_bound = True\<rparr>"

definition demo_connect_event :: "string \<Rightarrow> string \<Rightarrow> event" where
  "demo_connect_event user password =
     Connect demo_server (Some user) (Some password) AUTO_BIND_TLS_BEFORE_BIND"

definition demo_search :: "connection \<Rightarrow> search_request \<Rightarrow> exn + search_result" where
  "demo_search conn req =
     (if req_scope req = BASE then
        Inr \<lparr>found = (req_base req = Some ''cn=users,dc=org''),
             response = (if req_base req = Some ''cn=users,dc=org''
                         then [SearchResEntry ''cn=users,dc=org'' (\<lambda>k. None)] else []),
             entries = []\<rparr>
      else if req_filter req = ''(uid=bob)'' then
        Inr \<lparr>found = True,
             response = [SearchResEntry ''cn=Bob Smith,ou=people,dc=org''
                           (\<lambda>k. if k = Some ''cn'' then Some (AStr ''Bob Smith'') else None)],
             entries = [ [(''cn'', [''Bob Smith''])] ]\<rparr>
      else if req_filter req = ''(uid=carol)'' then
        Inr \<lparr>found = True,
             response = [SearchResEntry ''cn=Carol,ou=people,dc=org''
                           (\<lambda>k. if k = Some ''cn'' then Some (AList []) else None)],
             entries = [ [(''cn'', [])] ]\<rparr>
      else if req_filter req = ''(uid=alice)'' then
        Inr \<lparr>found = True,
             response = [SearchResEntry ''uid=alice,ou=b''
                           (\<lambda>k. if k = Some ''uid'' then Some (AStr ''alice'') else None)],
             entries = [ [(''uid'', [''alice''])] ]\<rparr>
      else if req_filter req = ''(uid=j'' @ CHR 0x5C # ''2adoe,jr)'' then
        Inr \<lparr>found = True,
             response = [SearchResEntry (''uid=j*doe'' @ CHR 0x5C # '',jr,ou=b'')
                           (\<lambda>k. if k = Some ''uid'' then Some (AStr ''j*doe,jr'') else None)],
             entries = [ [(''uid'', [''j*doe,jr''])] ]\<rparr>
      else Inr \<lparr>found = False, response = [], entries = []\<rparr>)"

definition demo_world :: world where
  "demo_world =
     \<lparr>re_match = demo_re_match,
      escape_filter_chars = demo_escape_filter_chars,
      escape_rdn = demo_escape_rdn,
      str_format = demo_format,
      ldap_connect = demo_connect,
      ldap_bind = (\<lambda>conn. Inr (conn_bound conn)),
      ldap_search = demo_search,
      super_check_allowed = None\<rparr>"

text \<open>
  The defaults of the traits, with the two templates of the example, a user base and a
  technical account for the lookup.
\<close>

definition demo_config :: config where
  "demo_config =
     \<lparr>server_address = ''ldap.example.org'',
      server_port = None,
      tls_strategy = before_bind,
      bind_dn_template = [''uid={username},ou=a'', ''uid={username},ou=b''],
      allowed_groups = None,
      group_search_filter = ''(|(member={userdn})(uniqueMember={userdn})(memberUid={uid}))'',
      group_attributes = [''member'', ''uniqueMember'', ''memberUid''],
      valid_username_regex = ''^[a-z][.a-z0-9_-]*$'',
      lookup_dn = False,
      user_search_base = Some ''ou=people,dc=org'',
      user_attribute = Some ''uid'',
      lookup_dn_search_filter = Some ''({login_attr}={login})'',
      lookup_dn_search_user = Some ''cn=search,dc=org'',
      lookup_dn_search_password = Some ''tech'',
      lookup_dn_user_dn_attribute = Some ''cn'',
      search_filter = [],
      attributes = [],
      auth_state_attributes = [],
      use_lookup_dn_username = True,
      allowed_users = []\<rparr>"

text \<open>The same with \<^verbatim>\<open>lookup_dn\<close> and no template.\<close>

definition demo_lookup_config :: config where
  "demo_lookup_config = demo_config\<lparr>lookup_dn := True, bind_dn_template := []\<rparr>"

text \<open>
  A configuration that accepts every username, with a search filter and a group; and the
  DN of the user \<^verbatim>\<open>j*doe,jr\<close>.
\<close>

definition demo_special_config :: config where
  "demo_special_config =
     demo_config\<lparr>valid_username_regex := ''.+'',
                  search_filter := ''({userattr}={username})'',
                  allowed_groups := Some [''cn=users,dc=org'']\<rparr>"

definition demo_special_dn :: string where
  "demo_special_dn = ''uid=j*doe'' @ CHR 0x5C # '',jr,ou=b''"




section \<open>Evaluation\<close>

text \<open>
  The definitions of the model and of the small directory, as rules for running the
  operations on concrete inputs.
\<close>

lemmas demo_defs =
  demo_world_def demo_config_def demo_re_match_def lower_def digit_def strip_def isspace_def
  demo_escape_rdn_def demo_escape_filter_chars_def demo_format_def demo_connect_def demo_search_def
  demo_server_def demo_conn_def demo_connect_event_def demo_lookup_config_def

lemmas model_defs =
  authenticate_def bind_phase_def choose_templates_def resolve_username_def get_connection_def conn_bind_def
  conn_search_def server_port_value_def server_port_default_def search_filter_check_def
  group_check_def get_user_attributes_def lookup_request_def filter_request_def
  group_request_def set_bind_dn_template_def validate_bind_dn_template_def Let_def


section \<open>Validation of the templates\<close>

lemma validate_bind_dn_template_str:
  "validate_bind_dn_template (PStr s) = (if s = [] then [] else [s])"
  by (simp add: validate_bind_dn_template_def)

lemma validate_bind_dn_template_list:
  "validate_bind_dn_template (PList templates) = []"
  by (simp add: validate_bind_dn_template_def)

text \<open>
  Claim C1.  The validated value of \<^verbatim>\<open>bind_dn_template\<close> should be the list of the
  given non-empty templates: a string becomes a one-element list, a list keeps its
  order, empty strings are dropped.  The code does this for a string
  (\<open>validate_bind_dn_template_str\<close>), but it returns the empty list for every value
  that is a list (\<open>validate_bind_dn_template_list\<close>): the two templates of the
  example below are both lost.
\<close>

theorem configured_template_list_is_dropped:
  "validate_bind_dn_template (PList [''uid={username},ou=a'', ''uid={username},ou=b'']) = []"
  by (simp add: validate_bind_dn_template_def)

text \<open>
  With the two templates stored as they are, the loop tries them in order: the bind with
  the first fails, the bind with the second succeeds, and the user is identified.
\<close>

lemma stored_list_is_tried_in_order:
  "authenticate demo_world demo_config ''alice'' (Some ''secret'') [] =
     (Inr (Some \<lparr>name = ''alice'', auth_state = Some \<lparr>ldap_groups = [], user_attributes = []\<rparr>\<rparr>),
      [Connect \<lparr>host = ''ldap.example.org'', port = 389, use_ssl = False\<rparr>
         (Some ''uid=alice,ou=a'') (Some ''secret'') AUTO_BIND_TLS_BEFORE_BIND,
       Connect \<lparr>host = ''ldap.example.org'', port = 389, use_ssl = False\<rparr>
         (Some ''uid=alice,ou=b'') (Some ''secret'') AUTO_BIND_TLS_BEFORE_BIND])"
  by (simp add: model_defs demo_defs)

text \<open>
  A list that has been configured never reaches the loop: without \<^verbatim>\<open>lookup_dn\<close>,
  \<^verbatim>\<open>authenticate\<close> returns \<^verbatim>\<open>None\<close> whatever the list, the username and the
  password are, and performs no operation.
\<close>

lemma configured_list_is_rejected:
  "\<not> lookup_dn cfg \<Longrightarrow>
     authenticate w (set_bind_dn_template (PList templates) cfg) username password log
       = (Inr None, log)"
  by (auto simp: authenticate_def bind_phase_def set_bind_dn_template_def
        validate_bind_dn_template_def split: option.splits)

text \<open>
  Claim C2.  With a configured list of two or more templates, \<^verbatim>\<open>authenticate\<close> should
  try a bind for each candidate in the configured order and succeed with the first
  candidate that binds; with the templates \<^verbatim>\<open>uid={username},ou=a\<close> and
  \<^verbatim>\<open>uid={username},ou=b\<close>, of which only the second binds, it should succeed.  Once
  the list has gone through the validator nothing is left of it, and
  \<^verbatim>\<open>authenticate\<close> returns \<^verbatim>\<open>None\<close> at its sanity check, without any bind.
\<close>

theorem configured_list_never_bound:
  "authenticate demo_world
     (set_bind_dn_template (PList [''uid={username},ou=a'', ''uid={username},ou=b'']) demo_config)
     ''alice'' (Some ''secret'') [] = (Inr None, [])"
  by (simp add: model_defs demo_defs)

section \<open>Rejected input\<close>

lemma dropWhile_all_iff: "(\<forall>x\<in>set (dropWhile P xs). P x) \<longleftrightarrow> (\<forall>x\<in>set xs. P x)"
  by (induction xs) auto

lemma strip_empty_iff: "strip s = [] \<longleftrightarrow> (\<forall>c\<in>set s. isspace c)"
proof -
  have "strip s = [] \<longleftrightarrow> (\<forall>x\<in>set (rev (dropWhile isspace s)). isspace x)"
    by (simp add: strip_def dropWhile_eq_Nil_conv)
  also have "\<dots> \<longleftrightarrow> (\<forall>c\<in>set s. isspace c)"
    by (simp add: dropWhile_all_iff)
  finally show ?thesis .
qed

text \<open>
  Claim C7.  For a username that does not match \<^verbatim>\<open>valid_username_regex\<close>, and for a
  password that is \<^verbatim>\<open>None\<close>, empty or made of whitespace only, \<^verbatim>\<open>authenticate\<close>
  returns \<^verbatim>\<open>None\<close> and the trace of directory operations is what it was: no
  connection, bind or search has been attempted.
\<close>

theorem authenticate_rejects_before_any_operation:
  assumes "\<not> re_match w (valid_username_regex cfg) username
           \<or> password = None
           \<or> (\<exists>pw. password = Some pw \<and> (\<forall>c\<in>set pw. isspace c))"
  shows "authenticate w cfg username password log = (Inr None, log)"
  using assms
  by (auto simp: authenticate_def bind_phase_def strip_empty_iff split: option.splits)

text \<open>
  In the small directory: a username with characters the pattern refuses, and the
  password \<^verbatim>\<open>None\<close>, empty, and made of a space, a tab and a newline.
\<close>

theorem authenticate_rejects_before_any_operation_witness:
  "authenticate demo_world demo_config ''Alice(*)'' (Some ''secret'') [] = (Inr None, [])
   \<and> authenticate demo_world demo_config ''alice'' None [] = (Inr None, [])
   \<and> authenticate demo_world demo_config ''alice'' (Some '''') [] = (Inr None, [])
   \<and> authenticate demo_world demo_config ''alice'' (Some [CHR '' '', CHR 0x09, CHR 0x0A]) [] = (Inr None, [])"
proof -
  have a: "\<not> re_match demo_world (valid_username_regex demo_config) ''Alice(*)''"
    by (simp add: demo_defs)
  have d: "\<forall>c\<in>set [CHR '' '', CHR 0x09, CHR 0x0A]. isspace c"
    by (simp add: isspace_def)
  show ?thesis
    using authenticate_rejects_before_any_operation [of demo_world demo_config "''Alice(*)''" "Some ''secret''" "[]"]
      authenticate_rejects_before_any_operation [of demo_world demo_config "''alice''" None "[]"]
      authenticate_rejects_before_any_operation [of demo_world demo_config "''alice''" "Some ''''" "[]"]
      authenticate_rejects_before_any_operation [of demo_world demo_config "''alice''" "Some [CHR '' '', CHR 0x09, CHR 0x0A]" "[]"]
      a d
    by simp
qed

section \<open>The lookup\<close>

text \<open>
  What \<^verbatim>\<open>resolve_username\<close> returns once the connection of the search account is
  bound and the search has answered: it depends on the first item of the response only.
\<close>

lemma resolve_username_found:
  assumes "get_connection w cfg (lookup_dn_search_user cfg) (lookup_dn_search_password cfg) log
             = (Inr conn, log1)"
    and "ldap_bind w conn = Inr True"
    and "lookup_dn_search_filter cfg = Some template"
    and "str_format w template
           [(''login_attr'', user_attribute cfg),
            (''login'', Some (escape_filter_chars w username))] = Inr flt"
    and "ldap_search w conn (lookup_request cfg flt) = Inr res"
  shows "resolve_username w cfg username log =
           (case response res of
              [] \<Rightarrow> Inr None
            | SearchResRef # _ \<Rightarrow> Inr None
            | SearchResEntry dn attrs # _ \<Rightarrow>
                (case attrs (lookup_dn_user_dn_attribute cfg) of
                   None \<Rightarrow> Inl OtherException
                 | Some (AStr user_dn) \<Rightarrow> Inr (Some (user_dn, dn))
                 | Some (AList []) \<Rightarrow> Inr None
                 | Some (AList (user_dn # _)) \<Rightarrow> Inr (Some (user_dn, dn))),
            log1 @ [Bind conn, Search conn (lookup_request cfg flt)])"
  using assms
  by (simp add: resolve_username_def conn_bind_def conn_search_def
           split: list.splits response_item.splits option.splits attr_value.splits)

lemma get_connection_log:
  "get_connection w cfg userdn password log = (r, log') \<Longrightarrow>
     \<exists>srv ab. log' = log @ [Connect srv userdn password ab]"
  by (auto simp: get_connection_def Let_def split: sum.splits if_splits)

lemma bind_phase_lookup_None:
  assumes "lookup_dn cfg" and "re_match w (valid_username_regex cfg) username"
    and "strip pw \<noteq> []"
    and "resolve_username w cfg username log = (Inr None, log')"
  shows "bind_phase w cfg username (Some pw) log = (Inr None, log')"
  using assms by (simp add: bind_phase_def choose_templates_def)

lemma authenticate_bind_phase_None:
  "bind_phase w cfg username password log = (Inr None, log') \<Longrightarrow>
     authenticate w cfg username password log = (Inr None, log')"
  by (simp add: authenticate_def)

text \<open>
  Claim C10.  With \<^verbatim>\<open>lookup_dn\<close>, when the attribute
  \<^verbatim>\<open>lookup_dn_user_dn_attribute\<close> of the entry found is an empty list,
  \<^verbatim>\<open>resolve_username\<close> returns \<^verbatim>\<open>(None, None)\<close> and \<^verbatim>\<open>authenticate\<close> returns
  \<^verbatim>\<open>None\<close>.  The operations performed are the connection and the bind of the search
  account and the lookup search: no bind is attempted for the user.
\<close>

theorem empty_lookup_attribute_rejected:
  assumes "lookup_dn cfg" and "re_match w (valid_username_regex cfg) username"
    and "strip pw \<noteq> []"
    and "get_connection w cfg (lookup_dn_search_user cfg) (lookup_dn_search_password cfg) log
           = (Inr conn, log1)"
    and "ldap_bind w conn = Inr True"
    and "lookup_dn_search_filter cfg = Some template"
    and "str_format w template
           [(''login_attr'', user_attribute cfg),
            (''login'', Some (escape_filter_chars w username))] = Inr flt"
    and "ldap_search w conn (lookup_request cfg flt) = Inr res"
    and "response res = SearchResEntry dn attrs # others"
    and "attrs (lookup_dn_user_dn_attribute cfg) = Some (AList [])"
  shows "resolve_username w cfg username log =
           (Inr None, log1 @ [Bind conn, Search conn (lookup_request cfg flt)])
         \<and> authenticate w cfg username (Some pw) log =
           (Inr None, log1 @ [Bind conn, Search conn (lookup_request cfg flt)])
         \<and> (\<exists>srv ab. log1 =
               log @ [Connect srv (lookup_dn_search_user cfg) (lookup_dn_search_password cfg) ab])"
proof -
  have r: "resolve_username w cfg username log =
             (Inr None, log1 @ [Bind conn, Search conn (lookup_request cfg flt)])"
    using resolve_username_found [OF assms(4-8)] assms(9,10) by simp
  have a: "authenticate w cfg username (Some pw) log =
             (Inr None, log1 @ [Bind conn, Search conn (lookup_request cfg flt)])"
    by (rule authenticate_bind_phase_None) (rule bind_phase_lookup_None [OF assms(1-3) r])
  from r a get_connection_log [OF assms(4)] show ?thesis by blast
qed

text \<open>
  In the small directory the entry of \<open>carol\<close> has no value for \<open>cn\<close>.
\<close>

theorem empty_lookup_attribute_rejected_witness:
  "resolve_username demo_world demo_lookup_config ''carol'' [] =
     (Inr None,
      [demo_connect_event ''cn=search,dc=org'' ''tech'',
       Bind (demo_conn ''cn=search,dc=org'' ''tech''),
       Search (demo_conn ''cn=search,dc=org'' ''tech'')
         (lookup_request demo_lookup_config ''(uid=carol)'')])
   \<and> authenticate demo_world demo_lookup_config ''carol'' (Some ''secret'') [] =
     (Inr None,
      [demo_connect_event ''cn=search,dc=org'' ''tech'',
       Bind (demo_conn ''cn=search,dc=org'' ''tech''),
       Search (demo_conn ''cn=search,dc=org'' ''tech'')
         (lookup_request demo_lookup_config ''(uid=carol)'')])"
proof -
  let ?cfg = demo_lookup_config
  let ?conn = "demo_conn ''cn=search,dc=org'' ''tech''"
  let ?attrs = "\<lambda>k. if k = Some ''cn'' then Some (AList []) else None"
  let ?res = "\<lparr>found = True,
               response = [SearchResEntry ''cn=Carol,ou=people,dc=org'' ?attrs],
               entries = [ [(''cn'', [])] ]\<rparr>"
  have h1: "lookup_dn ?cfg" by (simp add: demo_defs)
  have h2: "re_match demo_world (valid_username_regex ?cfg) ''carol''" by (simp add: demo_defs)
  have h3: "strip ''secret'' \<noteq> []" by (simp add: demo_defs)
  have h4: "get_connection demo_world ?cfg (lookup_dn_search_user ?cfg)
              (lookup_dn_search_password ?cfg) [] =
              (Inr ?conn, [demo_connect_event ''cn=search,dc=org'' ''tech''])"
    by (simp add: model_defs demo_defs)
  have h5: "ldap_bind demo_world ?conn = Inr True" by (simp add: demo_defs)
  have h6: "lookup_dn_search_filter ?cfg = Some ''({login_attr}={login})''" by (simp add: demo_defs)
  have h7: "str_format demo_world ''({login_attr}={login})''
              [(''login_attr'', user_attribute ?cfg),
               (''login'', Some (escape_filter_chars demo_world ''carol''))] = Inr ''(uid=carol)''"
    by (simp add: demo_defs)
  have h8: "ldap_search demo_world ?conn (lookup_request ?cfg ''(uid=carol)'') = Inr ?res"
    by (simp add: demo_defs lookup_request_def)
  have h9: "response ?res = SearchResEntry ''cn=Carol,ou=people,dc=org'' ?attrs # []" by simp
  have h10: "?attrs (lookup_dn_user_dn_attribute ?cfg) = Some (AList [])" by (simp add: demo_defs)
  show ?thesis
    using empty_lookup_attribute_rejected [OF h1 h2 h3 h4 h5 h6 h7 h8 h9 h10] by simp
qed

section \<open>After the bind\<close>



lemma probe_groups_eq:
  assumes "str_format w (group_search_filter cfg)
             [(''userdn'', Some (escape_filter_chars w userdn)),
              (''uid'', Some (escape_filter_chars w username))] = Inr flt"
    and "\<forall>g\<in>set groups. \<exists>res. ldap_search w conn (group_request cfg g flt) = Inr res"
  shows "probe_groups w cfg username userdn conn groups log =
           (Inr (case find (group_matches w cfg conn flt) groups of None \<Rightarrow> [] | Some g \<Rightarrow> [g]),
            log @ map (\<lambda>g. Search conn (group_request cfg g flt))
                    (probed (group_matches w cfg conn flt) groups))"
  using assms(2)
proof (induction groups arbitrary: log)
  case Nil
  then show ?case by (simp add: probed_def)
next
  case (Cons g groups)
  then obtain res where res: "ldap_search w conn (group_request cfg g flt) = Inr res"
    by auto
  show ?case
  proof (cases "found res")
    case True
    with res assms(1) show ?thesis
      by (simp add: conn_search_def group_matches_def probed_def)
  next
    case False
    with res assms(1) Cons show ?thesis
      by (simp add: conn_search_def group_matches_def probed_def)
  qed
qed

lemma get_user_attributes_trace:
  "get_user_attributes w cfg conn userdn log = (r, log') \<Longrightarrow>
     log' = log \<or>
     log' = log @ [Search conn
        \<lparr>req_base = Some userdn, req_scope = SUBTREE, req_filter = ''(objectClass=*)'',
         req_attributes = map Some (auth_state_attributes cfg)\<rparr>]"
  by (auto simp: get_user_attributes_def conn_search_def split: if_splits sum.splits list.splits)








text \<open>
  Claim C5.  With \<^verbatim>\<open>allowed_groups\<close>, a group search filter and group attributes,
  \<^verbatim>\<open>authenticate\<close> probes the groups in the listed order, each with a search of scope
  \<^verbatim>\<open>BASE\<close> on the group, and stops at the first group found: the trace holds the
  probes up to that group, and \<^verbatim>\<open>ldap_groups\<close> is that one group.  When no group is
  found, an identity is still returned, with \<^verbatim>\<open>ldap_groups\<close> empty.  (The searches
  and the reading of the user attributes are assumed not to raise; \<open>log3\<close> is the
  trace after the probes, \<open>log4\<close> the trace at the end.)
\<close>

theorem group_probe_stops_at_first_match:
  assumes "bind_phase w cfg data_username data_password log
             = (Inr (Some (username, userdn, conn)), log1)"
    and "search_filter_check w cfg username conn log1 = (Inr True, log2)"
    and "allowed_groups cfg = Some groups" and "groups \<noteq> []"
    and "group_search_filter cfg \<noteq> []" and "group_attributes cfg \<noteq> []"
    and "str_format w (group_search_filter cfg)
           [(''userdn'', Some (escape_filter_chars w userdn)),
            (''uid'', Some (escape_filter_chars w username))] = Inr flt"
    and "\<forall>g\<in>set groups. \<exists>res. ldap_search w conn (group_request cfg g flt) = Inr res"
    and "log3 = log2 @ map (\<lambda>g. Search conn
                  \<lparr>req_base = Some g, req_scope = BASE, req_filter = flt,
                   req_attributes = map Some (group_attributes cfg)\<rparr>)
                (probed (group_matches w cfg conn flt) groups)"
    and "get_user_attributes w cfg conn userdn log3 = (Inr attrs, log4)"
  shows "authenticate w cfg data_username data_password log =
           (Inr (Some
              \<lparr>name = (if use_lookup_dn_username cfg then username else data_username),
               auth_state = Some
                 \<lparr>ldap_groups = (case find (group_matches w cfg conn flt) groups of
                                   None \<Rightarrow> [] | Some g \<Rightarrow> [g]),
                  user_attributes = attrs\<rparr>\<rparr>),
            log4)
         \<and> (\<exists>evs. log4 =
               log2 @ map (\<lambda>g. Search conn
                  \<lparr>req_base = Some g, req_scope = BASE, req_filter = flt,
                   req_attributes = map Some (group_attributes cfg)\<rparr>)
                (probed (group_matches w cfg conn flt) groups) @ evs)"
proof -
  have "probe_groups w cfg username userdn conn groups log2 =
          (Inr (case find (group_matches w cfg conn flt) groups of None \<Rightarrow> [] | Some g \<Rightarrow> [g]),
           log3)"
    using probe_groups_eq [OF assms(7,8), of log2] assms(9)
    by (simp add: group_request_def)
  then have "group_check w cfg username userdn conn log2 =
          (Inr (Some (case find (group_matches w cfg conn flt) groups of
                        None \<Rightarrow> [] | Some g \<Rightarrow> [g])), log3)"
    using assms(3-6) by (simp add: group_check_def)
  with assms(1,2,10) have "authenticate w cfg data_username data_password log =
           (Inr (Some
              \<lparr>name = (if use_lookup_dn_username cfg then username else data_username),
               auth_state = Some
                 \<lparr>ldap_groups = (case find (group_matches w cfg conn flt) groups of
                                   None \<Rightarrow> [] | Some g \<Rightarrow> [g]),
                  user_attributes = attrs\<rparr>\<rparr>),
            log4)"
    by (simp add: authenticate_def)
  moreover from get_user_attributes_trace [OF assms(10)] have "\<exists>evs. log4 = log3 @ evs"
    by auto
  ultimately show ?thesis
    unfolding assms(9) by simp
qed

text \<open>
  In the small directory \<open>alice\<close> is not found in the first group and is found in the
  second.
\<close>

theorem group_probe_stops_at_first_match_witness:
  "authenticate demo_world
     (demo_config\<lparr>allowed_groups := Some [''cn=admins,dc=org'', ''cn=users,dc=org'']\<rparr>)
     ''alice'' (Some ''secret'') [] =
   (Inr (Some \<lparr>name = ''alice'',
               auth_state = Some \<lparr>ldap_groups = [''cn=users,dc=org''],
                                   user_attributes = []\<rparr>\<rparr>),
    [demo_connect_event ''uid=alice,ou=a'' ''secret'',
     demo_connect_event ''uid=alice,ou=b'' ''secret'',
     Search (demo_conn ''uid=alice,ou=b'' ''secret'')
       \<lparr>req_base = Some ''cn=admins,dc=org'', req_scope = BASE,
        req_filter = ''(|(member=uid=alice,ou=b)(uniqueMember=uid=alice,ou=b)(memberUid=alice))'',
        req_attributes = [Some ''member'', Some ''uniqueMember'', Some ''memberUid'']\<rparr>,
     Search (demo_conn ''uid=alice,ou=b'' ''secret'')
       \<lparr>req_base = Some ''cn=users,dc=org'', req_scope = BASE,
        req_filter = ''(|(member=uid=alice,ou=b)(uniqueMember=uid=alice,ou=b)(memberUid=alice))'',
        req_attributes = [Some ''member'', Some ''uniqueMember'', Some ''memberUid'']\<rparr>])"
proof -
  let ?groups = "[''cn=admins,dc=org'', ''cn=users,dc=org'']"
  let ?cfg = "demo_config\<lparr>allowed_groups := Some ?groups\<rparr>"
  let ?log = "[demo_connect_event ''uid=alice,ou=a'' ''secret'',
               demo_connect_event ''uid=alice,ou=b'' ''secret'']"
  let ?conn = "demo_conn ''uid=alice,ou=b'' ''secret''"
  let ?flt = "''(|(member=uid=alice,ou=b)(uniqueMember=uid=alice,ou=b)(memberUid=alice))''"
  let ?log3 = "?log @ map (\<lambda>g. Search ?conn
                  \<lparr>req_base = Some g, req_scope = BASE, req_filter = ?flt,
                   req_attributes = map Some (group_attributes ?cfg)\<rparr>)
                (probed (group_matches demo_world ?cfg ?conn ?flt) ?groups)"
  have b: "bind_phase demo_world ?cfg ''alice'' (Some ''secret'') [] =
             (Inr (Some (''alice'', ''uid=alice,ou=b'', ?conn)), ?log)"
    by (simp add: model_defs demo_defs)
  have s: "search_filter_check demo_world ?cfg ''alice'' ?conn ?log = (Inr True, ?log)"
    by (simp add: search_filter_check_def demo_config_def)
  have g: "allowed_groups ?cfg = Some ?groups" "?groups \<noteq> []"
    "group_search_filter ?cfg \<noteq> []" "group_attributes ?cfg \<noteq> []"
    by (simp_all add: demo_config_def)
  have f: "str_format demo_world (group_search_filter ?cfg)
             [(''userdn'', Some (escape_filter_chars demo_world ''uid=alice,ou=b'')),
              (''uid'', Some (escape_filter_chars demo_world ''alice''))] = Inr ?flt"
    by (simp add: demo_defs)
  have e: "\<forall>g\<in>set ?groups. \<exists>res.
             ldap_search demo_world ?conn (group_request ?cfg g ?flt) = Inr res"
    by (simp add: demo_defs group_request_def)
  have m: "\<not> group_matches demo_world ?cfg ?conn ?flt ''cn=admins,dc=org''"
    "group_matches demo_world ?cfg ?conn ?flt ''cn=users,dc=org''"
    by (simp_all add: group_matches_def group_request_def demo_defs)
  have u: "get_user_attributes demo_world ?cfg ?conn ''uid=alice,ou=b'' ?log3 = (Inr [], ?log3)"
    by (simp add: get_user_attributes_def demo_config_def)
  show ?thesis
    using group_probe_stops_at_first_match [OF b s g f e refl u, THEN conjunct1] m
    by (simp add: probed_def demo_config_def)
qed

text \<open>
  Claim C6.  With \<^verbatim>\<open>allowed_groups\<close> but an empty \<^verbatim>\<open>group_search_filter\<close> or empty
  \<^verbatim>\<open>group_attributes\<close>, \<^verbatim>\<open>authenticate\<close> returns \<^verbatim>\<open>None\<close> after the bind has
  succeeded (and the check of \<^verbatim>\<open>search_filter\<close>, if any, has passed); no group is
  probed.
\<close>

theorem missing_group_settings_deny:
  assumes "bind_phase w cfg data_username data_password log = (Inr (Some (username, userdn, conn)), log1)"
    and "search_filter_check w cfg username conn log1 = (Inr True, log2)"
    and "allowed_groups cfg = Some groups" and "groups \<noteq> []"
    and "group_search_filter cfg = [] \<or> group_attributes cfg = []"
  shows "authenticate w cfg data_username data_password log = (Inr None, log2)"
  using assms by (auto simp: authenticate_def group_check_def)

theorem missing_group_settings_deny_witness:
  "authenticate demo_world
     (demo_config\<lparr>allowed_groups := Some [''cn=users,dc=org''], group_attributes := []\<rparr>)
     ''alice'' (Some ''secret'') [] =
   (Inr None,
    [demo_connect_event ''uid=alice,ou=a'' ''secret'',
     demo_connect_event ''uid=alice,ou=b'' ''secret''])"
proof -
  let ?cfg = "demo_config\<lparr>allowed_groups := Some [''cn=users,dc=org''], group_attributes := []\<rparr>"
  let ?log = "[demo_connect_event ''uid=alice,ou=a'' ''secret'',
               demo_connect_event ''uid=alice,ou=b'' ''secret'']"
  let ?conn = "demo_conn ''uid=alice,ou=b'' ''secret''"
  have b: "bind_phase demo_world ?cfg ''alice'' (Some ''secret'') [] =
             (Inr (Some (''alice'', ''uid=alice,ou=b'', ?conn)), ?log)"
    by (simp add: model_defs demo_defs)
  have s: "search_filter_check demo_world ?cfg ''alice'' ?conn ?log = (Inr True, ?log)"
    by (simp add: search_filter_check_def demo_config_def)
  have g: "allowed_groups ?cfg = Some [''cn=users,dc=org'']" "[''cn=users,dc=org''] \<noteq> []"
    "group_search_filter ?cfg = [] \<or> group_attributes ?cfg = []"
    by simp_all
  show ?thesis
    using missing_group_settings_deny [OF b s g] .
qed

section \<open>The bind loop\<close>












section \<open>Escaping\<close>



lemma is_connect_simps [simp]:
  "is_connect (user_connect cfg d p)" "\<not> is_connect (Bind c)" "\<not> is_connect (Search c req)"
  by (simp_all add: is_connect_def user_connect_def)













lemma demo_special_trace:
  "snd (authenticate demo_world demo_special_config ''j*doe,jr'' (Some ''pw'') []) =
     [demo_connect_event (''uid=j*doe'' @ CHR 0x5C # '',jr,ou=a'') ''pw'',
      demo_connect_event demo_special_dn ''pw'',
      Search (demo_conn demo_special_dn ''pw'')
        \<lparr>req_base = Some ''ou=people,dc=org'', req_scope = SUBTREE,
         req_filter = ''(uid=j'' @ CHR 0x5C # ''2adoe,jr)'', req_attributes = []\<rparr>,
      Search (demo_conn demo_special_dn ''pw'')
        \<lparr>req_base = Some ''cn=users,dc=org'', req_scope = BASE,
         req_filter =
           ''(|(member=uid=j'' @ CHR 0x5C # ''2adoe'' @ CHR 0x5C # ''5c,jr,ou=b)''
           @ ''(uniqueMember=uid=j'' @ CHR 0x5C # ''2adoe'' @ CHR 0x5C # ''5c,jr,ou=b)''
           @ ''(memberUid=j'' @ CHR 0x5C # ''2adoe,jr))'',
         req_attributes = [Some ''member'', Some ''uniqueMember'', Some ''memberUid'']\<rparr>]"
  by (simp add: model_defs demo_defs demo_special_config_def demo_special_dn_def)


section \<open>Authorization\<close>

text \<open>
  Claim C9.  \<^verbatim>\<open>check_allowed\<close> performs no directory operation, and its verdict is a
  function of the username, the auth model and the configuration: it returns the trace
  it was given, and the same verdict whatever the directory answers and whatever has
  been done before.
\<close>

theorem check_allowed_pure:
  "check_allowed (w\<lparr>ldap_connect := c, ldap_bind := b, ldap_search := s\<rparr>) cfg username am log'
     = (fst (check_allowed w cfg username am log), log')"
  by (simp add: check_allowed_def Let_def split: option.splits)

theorem check_allowed_pure_witness:
  "check_allowed
     (demo_world\<lparr>ldap_connect := (\<lambda>srv user password ab. Inl OtherException),
                 ldap_bind := (\<lambda>conn. Inr False),
                 ldap_search := (\<lambda>conn req. Inl OtherException)\<rparr>)
     (demo_config\<lparr>allowed_groups := Some [''cn=admins,dc=org'', ''cn=users,dc=org'']\<rparr>)
     ''alice''
     \<lparr>name = ''alice'',
      auth_state = Some \<lparr>ldap_groups = [''cn=users,dc=org''], user_attributes = []\<rparr>\<rparr>
     [demo_connect_event ''uid=alice,ou=b'' ''secret'']
   = (True, [demo_connect_event ''uid=alice,ou=b'' ''secret''])"
proof -
  have "fst (check_allowed demo_world
          (demo_config\<lparr>allowed_groups := Some [''cn=admins,dc=org'', ''cn=users,dc=org'']\<rparr>)
          ''alice''
          \<lparr>name = ''alice'',
           auth_state = Some \<lparr>ldap_groups = [''cn=users,dc=org''], user_attributes = []\<rparr>\<rparr>
          []) = True"
    by (simp add: check_allowed_def in_groups_def demo_defs)
  then show ?thesis
    using check_allowed_pure [where w = demo_world
          and c = "\<lambda>srv user password ab. Inl OtherException" and b = "\<lambda>conn. Inr False"
          and s = "\<lambda>conn req. Inl OtherException"
          and cfg = "demo_config\<lparr>allowed_groups := Some [''cn=admins,dc=org'', ''cn=users,dc=org'']\<rparr>"
          and username = "''alice''"
          and am = "\<lparr>name = ''alice'',
            auth_state = Some \<lparr>ldap_groups = [''cn=users,dc=org''], user_attributes = []\<rparr>\<rparr>"
          and log' = "[demo_connect_event ''uid=alice,ou=b'' ''secret'']" and log = "[]"]
    by simp
qed

end
